theory Spec2Isabelle
  imports Main "HOL-Library.Word"
begin

unbundle bit_operations_syntax

section \<open>Machine types\<close>

type_synonym u32 = "32 word"
type_synonym s16 = "16 word"

section \<open>Input processing (tests/unit/test_input.cpp)\<close>

subsection \<open>SNES button codes\<close>

text \<open>The enum \<open>SNESButtons\<close> of test_input.cpp.\<close>

definition SNES_B :: u32 where "SNES_B = 0x8000"
definition SNES_Y :: u32 where "SNES_Y = 0x4000"
definition SNES_SELECT :: u32 where "SNES_SELECT = 0x2000"
definition SNES_START :: u32 where "SNES_START = 0x1000"
definition SNES_UP :: u32 where "SNES_UP = 0x0800"
definition SNES_DOWN :: u32 where "SNES_DOWN = 0x0400"
definition SNES_LEFT :: u32 where "SNES_LEFT = 0x0200"
definition SNES_RIGHT :: u32 where "SNES_RIGHT = 0x0100"
definition SNES_A :: u32 where "SNES_A = 0x0080"
definition SNES_X :: u32 where "SNES_X = 0x0040"
definition SNES_L :: u32 where "SNES_L = 0x0020"
definition SNES_R :: u32 where "SNES_R = 0x0010"

definition snes_buttons :: "u32 list" where
  "snes_buttons = [SNES_B, SNES_Y, SNES_SELECT, SNES_START, SNES_UP, SNES_DOWN,
                   SNES_LEFT, SNES_RIGHT, SNES_A, SNES_X, SNES_L, SNES_R]"

subsection \<open>Controller state and the edge computation\<close>

record ControllerState =
  buttons_held :: u32
  buttons_pressed :: u32
  buttons_released :: u32
  stick_x :: s16
  stick_y :: s16
  connected :: bool

text \<open>
  \<open>TestProcessButtonInput\<close> takes two pointers. A pointer is an address or the null
  pointer (\<open>None\<close>); the controller states live in a store from addresses to states, so
  that two pointers to the same state are one address. The function returns its boolean
  result and the store after the call. The two assignments are made in the source's order,
  each reading the store the previous one left.
\<close>

type_synonym addr = nat
type_synonym heap = "addr \<Rightarrow> ControllerState"

definition TestProcessButtonInput :: "addr option \<Rightarrow> addr option \<Rightarrow> heap \<Rightarrow> bool \<times> heap" where
  "TestProcessButtonInput current previous h =
     (case current of
        None \<Rightarrow> (False, h)
      | Some c \<Rightarrow>
         (case previous of
            None \<Rightarrow> (False, h)
          | Some p \<Rightarrow>
             (let h1 = h(c := (h c)\<lparr>buttons_pressed :=
                          buttons_held (h c) AND NOT (buttons_held (h p))\<rparr>);
                  h2 = h1(c := (h1 c)\<lparr>buttons_released :=
                          buttons_held (h1 p) AND NOT (buttons_held (h1 c))\<rparr>)
              in (True, h2))))"

subsection \<open>Combos, remapping, analog stick\<close>

definition TestValidateButtonCombo :: "u32 \<Rightarrow> u32 \<Rightarrow> bool" where
  "TestValidateButtonCombo buttons required_combo =
     ((buttons AND required_combo) = required_combo)"

definition TestMapGCButtonToSNES :: "u32 \<Rightarrow> u32" where
  "TestMapGCButtonToSNES gc_button =
     (if gc_button = 0x0001 then SNES_A
      else if gc_button = 0x0002 then SNES_B
      else if gc_button = 0x0004 then SNES_X
      else if gc_button = 0x0008 then SNES_Y
      else if gc_button = 0x0010 then SNES_L
      else if gc_button = 0x0020 then SNES_R
      else if gc_button = 0x0100 then SNES_START
      else if gc_button = 0x1000 then SNES_UP
      else if gc_button = 0x2000 then SNES_DOWN
      else if gc_button = 0x4000 then SNES_LEFT
      else if gc_button = 0x8000 then SNES_RIGHT
      else 0)"

text \<open>The case labels of the switch in \<open>TestMapGCButtonToSNES\<close>: the defined source codes.\<close>

definition gc_defined :: "u32 list" where
  "gc_defined = [0x0001, 0x0002, 0x0004, 0x0008, 0x0010, 0x0020,
                 0x0100, 0x1000, 0x2000, 0x4000, 0x8000]"

text \<open>
  The arguments are \<open>s16\<close>; C promotes them to \<open>int\<close> before negating and comparing, so
  \<open>-threshold\<close> never overflows. \<open>abs\<close> is taken on the promoted value too.
\<close>

definition TestStickDeadzone :: "s16 \<Rightarrow> s16 \<Rightarrow> s16 \<Rightarrow> bool" where
  "TestStickDeadzone x y deadzone =
     (\<bar>sint x\<bar> < sint deadzone \<and> \<bar>sint y\<bar> < sint deadzone)"

definition TestStickToDigital :: "s16 \<Rightarrow> s16 \<Rightarrow> s16 \<Rightarrow> u32" where
  "TestStickToDigital x y threshold =
     (let digital = 0;
          digital = (if sint x < - sint threshold then digital OR SNES_LEFT else digital);
          digital = (if sint x > sint threshold then digital OR SNES_RIGHT else digital);
          digital = (if sint y < - sint threshold then digital OR SNES_DOWN else digital);
          digital = (if sint y > sint threshold then digital OR SNES_UP else digital)
      in digital)"

section \<open>The button-mapping matrix (ResetControls)\<close>

subsection \<open>Controller types\<close>

definition CTRLR_GCPAD :: int where "CTRLR_GCPAD = 0"
definition CTRLR_WIIMOTE :: int where "CTRLR_WIIMOTE = 1"
definition CTRLR_NUNCHUK :: int where "CTRLR_NUNCHUK = 2"
definition CTRLR_CLASSIC :: int where "CTRLR_CLASSIC = 3"
definition CTRLR_WUPC :: int where "CTRLR_WUPC = 4"
definition CTRLR_WIIDRC :: int where "CTRLR_WIIDRC = 5"

text \<open>
  Modelled from the spec: the enum that declares \<open>CTRL_PAD\<close>, \<open>CTRL_MOUSE\<close>, \<open>CTRL_SCOPE\<close>
  and \<open>CTRL_JUST\<close> is not among the source files. The spec names four console input types
  (Pad, Superscope, Mouse, Justifier) that index the first dimension of the matrix; they
  are numbered here as array indices. Only that the four values are distinct and none is
  the sentinel \<open>-1\<close> is used below.
\<close>

definition CTRL_PAD :: int where "CTRL_PAD = 0"
definition CTRL_MOUSE :: int where "CTRL_MOUSE = 1"
definition CTRL_SCOPE :: int where "CTRL_SCOPE = 2"
definition CTRL_JUST :: int where "CTRL_JUST = 3"

subsection \<open>Physical button codes\<close>

text \<open>
  The button macros that \<open>ResetControls\<close> stores come from headers that are not among the
  source files. The macros used are the constructors of \<open>button\<close>; their values are a
  parameter \<open>code\<close> of the model.
\<close>

datatype button =
    PAD_BUTTON_A | PAD_BUTTON_B | PAD_BUTTON_X | PAD_BUTTON_Y
  | PAD_TRIGGER_L | PAD_TRIGGER_R | PAD_BUTTON_START | PAD_TRIGGER_Z
  | PAD_BUTTON_UP | PAD_BUTTON_DOWN | PAD_BUTTON_LEFT | PAD_BUTTON_RIGHT
  | WPAD_BUTTON_A | WPAD_BUTTON_B | WPAD_BUTTON_1 | WPAD_BUTTON_2
  | WPAD_BUTTON_PLUS | WPAD_BUTTON_MINUS
  | WPAD_BUTTON_UP | WPAD_BUTTON_DOWN | WPAD_BUTTON_LEFT | WPAD_BUTTON_RIGHT
  | WPAD_NUNCHUK_BUTTON_C | WPAD_NUNCHUK_BUTTON_Z
  | WPAD_CLASSIC_BUTTON_A | WPAD_CLASSIC_BUTTON_B | WPAD_CLASSIC_BUTTON_X
  | WPAD_CLASSIC_BUTTON_Y | WPAD_CLASSIC_BUTTON_FULL_L | WPAD_CLASSIC_BUTTON_FULL_R
  | WPAD_CLASSIC_BUTTON_PLUS | WPAD_CLASSIC_BUTTON_MINUS
  | WPAD_CLASSIC_BUTTON_UP | WPAD_CLASSIC_BUTTON_DOWN
  | WPAD_CLASSIC_BUTTON_LEFT | WPAD_CLASSIC_BUTTON_RIGHT
  | WIIDRC_BUTTON_A | WIIDRC_BUTTON_B | WIIDRC_BUTTON_X | WIIDRC_BUTTON_Y
  | WIIDRC_BUTTON_L | WIIDRC_BUTTON_R | WIIDRC_BUTTON_PLUS | WIIDRC_BUTTON_MINUS
  | WIIDRC_BUTTON_UP | WIIDRC_BUTTON_DOWN | WIIDRC_BUTTON_LEFT | WIIDRC_BUTTON_RIGHT

text \<open>
  One assignment of values to the macros, each a single bit, following the pad, remote and
  gamepad headers the source is compiled against. It instantiates \<open>code\<close> where a theorem
  is evaluated at a concrete input.
\<close>

fun header_code :: "button \<Rightarrow> u32" where
  "header_code PAD_BUTTON_LEFT = 0x0001"
| "header_code PAD_BUTTON_RIGHT = 0x0002"
| "header_code PAD_BUTTON_DOWN = 0x0004"
| "header_code PAD_BUTTON_UP = 0x0008"
| "header_code PAD_TRIGGER_Z = 0x0010"
| "header_code PAD_TRIGGER_R = 0x0020"
| "header_code PAD_TRIGGER_L = 0x0040"
| "header_code PAD_BUTTON_A = 0x0100"
| "header_code PAD_BUTTON_B = 0x0200"
| "header_code PAD_BUTTON_X = 0x0400"
| "header_code PAD_BUTTON_Y = 0x0800"
| "header_code PAD_BUTTON_START = 0x1000"
| "header_code WPAD_BUTTON_2 = 0x0001"
| "header_code WPAD_BUTTON_1 = 0x0002"
| "header_code WPAD_BUTTON_B = 0x0004"
| "header_code WPAD_BUTTON_A = 0x0008"
| "header_code WPAD_BUTTON_MINUS = 0x0010"
| "header_code WPAD_BUTTON_LEFT = 0x0100"
| "header_code WPAD_BUTTON_RIGHT = 0x0200"
| "header_code WPAD_BUTTON_DOWN = 0x0400"
| "header_code WPAD_BUTTON_UP = 0x0800"
| "header_code WPAD_BUTTON_PLUS = 0x1000"
| "header_code WPAD_NUNCHUK_BUTTON_Z = 0x00010000"
| "header_code WPAD_NUNCHUK_BUTTON_C = 0x00020000"
| "header_code WPAD_CLASSIC_BUTTON_UP = 0x00010000"
| "header_code WPAD_CLASSIC_BUTTON_LEFT = 0x00020000"
| "header_code WPAD_CLASSIC_BUTTON_X = 0x00080000"
| "header_code WPAD_CLASSIC_BUTTON_A = 0x00100000"
| "header_code WPAD_CLASSIC_BUTTON_Y = 0x00200000"
| "header_code WPAD_CLASSIC_BUTTON_B = 0x00400000"
| "header_code WPAD_CLASSIC_BUTTON_FULL_R = 0x02000000"
| "header_code WPAD_CLASSIC_BUTTON_PLUS = 0x04000000"
| "header_code WPAD_CLASSIC_BUTTON_MINUS = 0x10000000"
| "header_code WPAD_CLASSIC_BUTTON_FULL_L = 0x20000000"
| "header_code WPAD_CLASSIC_BUTTON_DOWN = 0x40000000"
| "header_code WPAD_CLASSIC_BUTTON_RIGHT = 0x80000000"
| "header_code WIIDRC_BUTTON_A = 0x8000"
| "header_code WIIDRC_BUTTON_B = 0x4000"
| "header_code WIIDRC_BUTTON_X = 0x2000"
| "header_code WIIDRC_BUTTON_Y = 0x1000"
| "header_code WIIDRC_BUTTON_LEFT = 0x0800"
| "header_code WIIDRC_BUTTON_RIGHT = 0x0400"
| "header_code WIIDRC_BUTTON_UP = 0x0200"
| "header_code WIIDRC_BUTTON_DOWN = 0x0100"
| "header_code WIIDRC_BUTTON_L = 0x0020"
| "header_code WIIDRC_BUTTON_R = 0x0010"
| "header_code WIIDRC_BUTTON_PLUS = 0x0008"
| "header_code WIIDRC_BUTTON_MINUS = 0x0004"

subsection \<open>The matrix and its writes\<close>

text \<open>
  \<open>btnmap\<close> is a global three-dimensional array of \<open>u32\<close>, indexed by console type,
  controller type and slot. It is a store from the three indices to the value held there;
  a C global starts zero-initialised.
\<close>

type_synonym btnmap = "int \<Rightarrow> int \<Rightarrow> nat \<Rightarrow> u32"

definition zero_btnmap :: btnmap where
  "zero_btnmap c p i = 0"

text \<open>The statement \<open>btnmap[c][p][i++] = v\<close>, on the pair of \<open>i\<close> and the matrix.\<close>

definition assign :: "int \<Rightarrow> int \<Rightarrow> nat \<times> btnmap \<Rightarrow> u32 \<Rightarrow> nat \<times> btnmap" where
  "assign c p s v = (case s of (i, m) \<Rightarrow> (i + 1, m(c := (m c)(p := (m c p)(i := v)))))"

text \<open>The body of one block: \<open>i=0;\<close> and then one such statement per value, in order.\<close>

definition padmap :: "int \<Rightarrow> int \<Rightarrow> u32 list \<Rightarrow> btnmap \<Rightarrow> btnmap" where
  "padmap c p vs m = snd (foldl (assign c p) (0, m) vs)"

text \<open>
  \<open>ResetControls\<close> is a sequence of guarded blocks of one shape,
  \<open>if(consoleCtrl == -1 || (consoleCtrl == c && wiiCtrl == p)) { i=0; btnmap[c][p][i++] = ...; }\<close>.
  \<open>blocks\<close> lists them in the source's order: the console type and controller type of the
  guard and of the row written, and the values assigned.
\<close>

definition blocks :: "(button \<Rightarrow> u32) \<Rightarrow> (int \<times> int \<times> u32 list) list" where
  "blocks code =
   [(CTRL_PAD, CTRLR_GCPAD,
       [code PAD_BUTTON_A, code PAD_BUTTON_B, code PAD_BUTTON_X, code PAD_BUTTON_Y,
        code PAD_TRIGGER_L, code PAD_TRIGGER_R, code PAD_BUTTON_START, code PAD_TRIGGER_Z,
        code PAD_BUTTON_UP, code PAD_BUTTON_DOWN, code PAD_BUTTON_LEFT, code PAD_BUTTON_RIGHT]),
    (CTRL_PAD, CTRLR_WIIMOTE,
       [code WPAD_BUTTON_B, code WPAD_BUTTON_2, code WPAD_BUTTON_1, code WPAD_BUTTON_A,
        0x0000, 0x0000, code WPAD_BUTTON_PLUS, code WPAD_BUTTON_MINUS,
        code WPAD_BUTTON_RIGHT, code WPAD_BUTTON_LEFT, code WPAD_BUTTON_UP,
        code WPAD_BUTTON_DOWN]),
    (CTRL_PAD, CTRLR_CLASSIC,
       [code WPAD_CLASSIC_BUTTON_A, code WPAD_CLASSIC_BUTTON_B, code WPAD_CLASSIC_BUTTON_X,
        code WPAD_CLASSIC_BUTTON_Y, code WPAD_CLASSIC_BUTTON_FULL_L,
        code WPAD_CLASSIC_BUTTON_FULL_R, code WPAD_CLASSIC_BUTTON_PLUS,
        code WPAD_CLASSIC_BUTTON_MINUS, code WPAD_CLASSIC_BUTTON_UP,
        code WPAD_CLASSIC_BUTTON_DOWN, code WPAD_CLASSIC_BUTTON_LEFT,
        code WPAD_CLASSIC_BUTTON_RIGHT]),
    (CTRL_PAD, CTRLR_WUPC,
       [code WPAD_CLASSIC_BUTTON_A, code WPAD_CLASSIC_BUTTON_B, code WPAD_CLASSIC_BUTTON_X,
        code WPAD_CLASSIC_BUTTON_Y, code WPAD_CLASSIC_BUTTON_FULL_L,
        code WPAD_CLASSIC_BUTTON_FULL_R, code WPAD_CLASSIC_BUTTON_PLUS,
        code WPAD_CLASSIC_BUTTON_MINUS, code WPAD_CLASSIC_BUTTON_UP,
        code WPAD_CLASSIC_BUTTON_DOWN, code WPAD_CLASSIC_BUTTON_LEFT,
        code WPAD_CLASSIC_BUTTON_RIGHT]),
    (CTRL_PAD, CTRLR_WIIDRC,
       [code WIIDRC_BUTTON_A, code WIIDRC_BUTTON_B, code WIIDRC_BUTTON_X, code WIIDRC_BUTTON_Y,
        code WIIDRC_BUTTON_L, code WIIDRC_BUTTON_R, code WIIDRC_BUTTON_PLUS,
        code WIIDRC_BUTTON_MINUS, code WIIDRC_BUTTON_UP, code WIIDRC_BUTTON_DOWN,
        code WIIDRC_BUTTON_LEFT, code WIIDRC_BUTTON_RIGHT]),
    (CTRL_PAD, CTRLR_NUNCHUK,
       [code WPAD_BUTTON_A, code WPAD_BUTTON_B, code WPAD_NUNCHUK_BUTTON_C,
        code WPAD_NUNCHUK_BUTTON_Z, code WPAD_BUTTON_2, code WPAD_BUTTON_1,
        code WPAD_BUTTON_PLUS, code WPAD_BUTTON_MINUS, code WPAD_BUTTON_UP,
        code WPAD_BUTTON_DOWN, code WPAD_BUTTON_LEFT, code WPAD_BUTTON_RIGHT]),
    (CTRL_SCOPE, CTRLR_GCPAD,
       [code PAD_BUTTON_A, code PAD_BUTTON_B, code PAD_TRIGGER_Z, code PAD_BUTTON_Y,
        code PAD_BUTTON_X, code PAD_BUTTON_START]),
    (CTRL_SCOPE, CTRLR_WIIMOTE,
       [code WPAD_BUTTON_B, code WPAD_BUTTON_A, code WPAD_BUTTON_MINUS, code WPAD_BUTTON_UP,
        code WPAD_BUTTON_DOWN, code WPAD_BUTTON_PLUS]),
    (CTRL_SCOPE, CTRLR_CLASSIC,
       [code WPAD_CLASSIC_BUTTON_B, code WPAD_CLASSIC_BUTTON_A, code WPAD_CLASSIC_BUTTON_MINUS,
        code WPAD_CLASSIC_BUTTON_Y, code WPAD_CLASSIC_BUTTON_X, code WPAD_CLASSIC_BUTTON_PLUS]),
    (CTRL_SCOPE, CTRLR_WUPC,
       [code WPAD_CLASSIC_BUTTON_B, code WPAD_CLASSIC_BUTTON_A, code WPAD_CLASSIC_BUTTON_MINUS,
        code WPAD_CLASSIC_BUTTON_Y, code WPAD_CLASSIC_BUTTON_X, code WPAD_CLASSIC_BUTTON_PLUS]),
    (CTRL_SCOPE, CTRLR_WIIDRC,
       [code WIIDRC_BUTTON_B, code WIIDRC_BUTTON_A, code WIIDRC_BUTTON_MINUS,
        code WIIDRC_BUTTON_Y, code WIIDRC_BUTTON_X, code WIIDRC_BUTTON_PLUS]),
    (CTRL_MOUSE, CTRLR_GCPAD, [code PAD_BUTTON_A, code PAD_BUTTON_B]),
    (CTRL_MOUSE, CTRLR_WIIMOTE, [code WPAD_BUTTON_A, code WPAD_BUTTON_B]),
    (CTRL_MOUSE, CTRLR_CLASSIC, [code WPAD_CLASSIC_BUTTON_A, code WPAD_CLASSIC_BUTTON_B]),
    (CTRL_MOUSE, CTRLR_WUPC, [code WPAD_CLASSIC_BUTTON_A, code WPAD_CLASSIC_BUTTON_B]),
    (CTRL_MOUSE, CTRLR_WIIDRC, [code WIIDRC_BUTTON_A, code WIIDRC_BUTTON_B]),
    (CTRL_JUST, CTRLR_GCPAD, [code PAD_BUTTON_B, code PAD_BUTTON_A, code PAD_BUTTON_START]),
    (CTRL_JUST, CTRLR_WIIMOTE, [code WPAD_BUTTON_B, code WPAD_BUTTON_A, code WPAD_BUTTON_PLUS]),
    (CTRL_JUST, CTRLR_CLASSIC,
       [code WPAD_CLASSIC_BUTTON_B, code WPAD_CLASSIC_BUTTON_A, code WPAD_CLASSIC_BUTTON_PLUS]),
    (CTRL_JUST, CTRLR_WUPC,
       [code WPAD_CLASSIC_BUTTON_B, code WPAD_CLASSIC_BUTTON_A, code WPAD_CLASSIC_BUTTON_PLUS]),
    (CTRL_JUST, CTRLR_WIIDRC,
       [code WIIDRC_BUTTON_B, code WIIDRC_BUTTON_A, code WIIDRC_BUTTON_PLUS])]"

text \<open>The guard of a block, and one guarded block run on the matrix.\<close>

definition selected :: "int \<Rightarrow> int \<Rightarrow> int \<times> int \<times> u32 list \<Rightarrow> bool" where
  "selected consoleCtrl wiiCtrl b =
     (consoleCtrl = -1 \<or> (consoleCtrl = fst b \<and> wiiCtrl = fst (snd b)))"

definition block :: "int \<Rightarrow> int \<Rightarrow> btnmap \<Rightarrow> int \<times> int \<times> u32 list \<Rightarrow> btnmap" where
  "block consoleCtrl wiiCtrl m b =
     (case b of (c, p, vs) \<Rightarrow>
        if selected consoleCtrl wiiCtrl b then padmap c p vs m else m)"

definition ResetControls :: "(button \<Rightarrow> u32) \<Rightarrow> int \<Rightarrow> int \<Rightarrow> btnmap \<Rightarrow> btnmap" where
  "ResetControls code consoleCtrl wiiCtrl m = foldl (block consoleCtrl wiiCtrl) m (blocks code)"

text \<open>The first \<open>n\<close> slots of a row, read from the matrix.\<close>

definition row :: "btnmap \<Rightarrow> int \<Rightarrow> int \<Rightarrow> nat \<Rightarrow> u32 list" where
  "row m c p n = map (m c p) [0..<n]"

text \<open>
  The slot count of a console type as the spec gives it (Pad 12, Superscope 6, Mouse 2,
  Justifier 3), to compare with the rows the source writes.
\<close>

definition slotCount :: "int \<Rightarrow> nat" where
  "slotCount c =
     (if c = CTRL_PAD then 12 else if c = CTRL_SCOPE then 6
      else if c = CTRL_MOUSE then 2 else if c = CTRL_JUST then 3 else 0)"


definition pairs :: "(int \<times> int) list" where
  "pairs =
   [(CTRL_PAD, CTRLR_GCPAD), (CTRL_PAD, CTRLR_WIIMOTE), (CTRL_PAD, CTRLR_CLASSIC),
    (CTRL_PAD, CTRLR_WUPC), (CTRL_PAD, CTRLR_WIIDRC), (CTRL_PAD, CTRLR_NUNCHUK),
    (CTRL_SCOPE, CTRLR_GCPAD), (CTRL_SCOPE, CTRLR_WIIMOTE), (CTRL_SCOPE, CTRLR_CLASSIC),
    (CTRL_SCOPE, CTRLR_WUPC), (CTRL_SCOPE, CTRLR_WIIDRC),
    (CTRL_MOUSE, CTRLR_GCPAD), (CTRL_MOUSE, CTRLR_WIIMOTE), (CTRL_MOUSE, CTRLR_CLASSIC),
    (CTRL_MOUSE, CTRLR_WUPC), (CTRL_MOUSE, CTRLR_WIIDRC),
    (CTRL_JUST, CTRLR_GCPAD), (CTRL_JUST, CTRLR_WIIMOTE), (CTRL_JUST, CTRLR_CLASSIC),
    (CTRL_JUST, CTRLR_WUPC), (CTRL_JUST, CTRLR_WIIDRC)]"

section \<open>Unfolding lemmas for the enums\<close>

lemmas SNES_defs =
  SNES_B_def SNES_Y_def SNES_SELECT_def SNES_START_def SNES_UP_def SNES_DOWN_def
  SNES_LEFT_def SNES_RIGHT_def SNES_A_def SNES_X_def SNES_L_def SNES_R_def

lemmas CTRL_defs =
  CTRLR_GCPAD_def CTRLR_WIIMOTE_def CTRLR_NUNCHUK_def CTRLR_CLASSIC_def CTRLR_WUPC_def
  CTRLR_WIIDRC_def CTRL_PAD_def CTRL_MOUSE_def CTRL_SCOPE_def CTRL_JUST_def

section \<open>The edge computation\<close>

lemma TestProcessButtonInput_nonnull:
  "TestProcessButtonInput (Some c) (Some p) h =
     (True, h(c := (h c)\<lparr>buttons_pressed := buttons_held (h c) AND NOT (buttons_held (h p)),
                         buttons_released := buttons_held (h p) AND NOT (buttons_held (h c))\<rparr>))"
  by (simp add: TestProcessButtonInput_def Let_def)

lemma single_bit_edge:
  fixes i j k :: nat
  assumes "i < 32" "j < 32" "k < 32" "i \<noteq> j" "i \<noteq> k" "j \<noteq> k"
  shows "((2 ^ i OR 2 ^ k) AND NOT (2 ^ i OR 2 ^ j) :: u32) = 2 ^ k"
  using assms by (intro bit_word_eqI) (auto simp: bit_simps)

text \<open>
  C3. For non-null \<open>current\<close> and \<open>previous\<close> (which may be the same address), the call
  succeeds and leaves \<open>pressed = held(current) & ~held(previous)\<close> and
  \<open>released = held(previous) & ~held(current)\<close> in the current state, the held masks being
  those before the call. In particular: previous 0 and current \<open>A\<close> give pressed \<open>A\<close>,
  released 0; previous \<open>A\<close> and current 0 give pressed 0, released \<open>A\<close>; previous
  \<open>A|B\<close> and current \<open>A|C\<close>, for distinct single bits \<open>A = 2^i\<close>, \<open>B = 2^j\<close>,
  \<open>C = 2^k\<close>, give pressed \<open>C\<close> and released \<open>B\<close>.
\<close>

theorem edge_delta:
  "(case TestProcessButtonInput (Some c) (Some p) h of (r, h') \<Rightarrow>
      r \<and> buttons_pressed (h' c) = buttons_held (h c) AND NOT (buttons_held (h p))
        \<and> buttons_released (h' c) = buttons_held (h p) AND NOT (buttons_held (h c))
        \<and> (buttons_held (h p) = 0 \<and> buttons_held (h c) = A \<longrightarrow>
             buttons_pressed (h' c) = A \<and> buttons_released (h' c) = 0)
        \<and> (buttons_held (h p) = A \<and> buttons_held (h c) = 0 \<longrightarrow>
             buttons_pressed (h' c) = 0 \<and> buttons_released (h' c) = A)
        \<and> (i < 32 \<and> j < 32 \<and> k < 32 \<and> i \<noteq> j \<and> i \<noteq> k \<and> j \<noteq> k
             \<and> buttons_held (h p) = 2 ^ i OR 2 ^ j \<and> buttons_held (h c) = 2 ^ i OR 2 ^ k \<longrightarrow>
             buttons_pressed (h' c) = 2 ^ k \<and> buttons_released (h' c) = 2 ^ j))"
proof -
  have bits: "((2 ^ i OR 2 ^ k) AND NOT (2 ^ i OR 2 ^ j) :: u32) = 2 ^ k
            \<and> ((2 ^ i OR 2 ^ j) AND NOT (2 ^ i OR 2 ^ k) :: u32) = 2 ^ j"
    if "i < 32" "j < 32" "k < 32" "i \<noteq> j" "i \<noteq> k" "j \<noteq> k"
    using that single_bit_edge [of i j k] single_bit_edge [of i k j] by simp
  show ?thesis
    unfolding TestProcessButtonInput_nonnull using bits by auto
qed

theorem edge_delta_witness:
  "(case TestProcessButtonInput (Some 1) (Some 0)
           (\<lambda>a. \<lparr>buttons_held = (if a = 0 then SNES_A OR SNES_B else if a = 1 then SNES_A OR SNES_X else 0),
                 buttons_pressed = 0, buttons_released = 0, stick_x = 0, stick_y = 0,
                 connected = True\<rparr>) of (r, h') \<Rightarrow>
      r \<and> buttons_pressed (h' 1) = SNES_X \<and> buttons_released (h' 1) = SNES_B)
   \<and> (case TestProcessButtonInput (Some 1) (Some 0)
           (\<lambda>a. \<lparr>buttons_held = (if a = 1 then SNES_A else 0),
                 buttons_pressed = 0, buttons_released = 0, stick_x = 0, stick_y = 0,
                 connected = True\<rparr>) of (r, h') \<Rightarrow>
      r \<and> buttons_pressed (h' 1) = SNES_A \<and> buttons_released (h' 1) = 0)
   \<and> (case TestProcessButtonInput (Some 1) (Some 0)
           (\<lambda>a. \<lparr>buttons_held = (if a = 0 then SNES_A else 0),
                 buttons_pressed = 0, buttons_released = 0, stick_x = 0, stick_y = 0,
                 connected = True\<rparr>) of (r, h') \<Rightarrow>
      r \<and> buttons_pressed (h' 1) = 0 \<and> buttons_released (h' 1) = SNES_A)"
proof -
  have A: "SNES_A = 2 ^ 7" and B: "SNES_B = 2 ^ 15" and X: "SNES_X = 2 ^ 6"
    by (simp_all add: SNES_defs)
  show ?thesis
    using edge_delta [where c = 1 and p = 0 and A = 0 and i = 7 and j = 15 and k = 6 and h = "\<lambda>a. \<lparr>buttons_held = (if a = 0 then SNES_A OR SNES_B else if a = 1 then SNES_A OR SNES_X else 0),
                 buttons_pressed = 0, buttons_released = 0, stick_x = 0, stick_y = 0,
                 connected = True\<rparr>"]
      edge_delta [where c = 1 and p = 0 and A = SNES_A and i = 0 and j = 0 and k = 0 and h = "\<lambda>a. \<lparr>buttons_held = (if a = 1 then SNES_A else 0),
                 buttons_pressed = 0, buttons_released = 0, stick_x = 0, stick_y = 0,
                 connected = True\<rparr>"]
      edge_delta [where c = 1 and p = 0 and A = SNES_A and i = 0 and j = 0 and k = 0 and h = "\<lambda>a. \<lparr>buttons_held = (if a = 0 then SNES_A else 0),
                 buttons_pressed = 0, buttons_released = 0, stick_x = 0, stick_y = 0,
                 connected = True\<rparr>"]
    unfolding A B X by (simp split: prod.splits)
qed

text \<open>
  C10. For non-null arguments the edge outputs are disjoint and bounded:
  \<open>pressed & released = 0\<close>, \<open>pressed & ~held(current) = 0\<close> and
  \<open>released & ~held(previous) = 0\<close>; the call does not change any held mask.
\<close>

theorem edge_disjoint:
  "(case TestProcessButtonInput (Some c) (Some p) h of (r, h') \<Rightarrow>
      buttons_pressed (h' c) AND buttons_released (h' c) = 0
    \<and> buttons_pressed (h' c) AND NOT (buttons_held (h c)) = 0
    \<and> buttons_released (h' c) AND NOT (buttons_held (h p)) = 0
    \<and> buttons_held (h' c) = buttons_held (h c)
    \<and> buttons_held (h' p) = buttons_held (h p))"
  unfolding TestProcessButtonInput_nonnull
  by (simp; intro conjI impI bit_word_eqI; auto simp: bit_simps)

theorem edge_disjoint_witness:
  "(case TestProcessButtonInput (Some 1) (Some 0)
           (\<lambda>a. \<lparr>buttons_held = (if a = 0 then SNES_A OR SNES_B else if a = 1 then SNES_A OR SNES_X else 0),
                 buttons_pressed = 0, buttons_released = 0, stick_x = 0, stick_y = 0,
                 connected = True\<rparr>) of (r, h') \<Rightarrow>
      buttons_pressed (h' 1) AND buttons_released (h' 1) = 0
    \<and> buttons_pressed (h' 1) AND NOT (SNES_A OR SNES_X) = 0
    \<and> buttons_released (h' 1) AND NOT (SNES_A OR SNES_B) = 0)"
  using edge_disjoint [where c = 1 and p = 0 and h = "\<lambda>a. \<lparr>buttons_held = (if a = 0 then SNES_A OR SNES_B else if a = 1 then SNES_A OR SNES_X else 0),
                 buttons_pressed = 0, buttons_released = 0, stick_x = 0, stick_y = 0,
                 connected = True\<rparr>"]
  by (simp split: prod.splits)

text \<open>
  C6. When \<open>current\<close> or \<open>previous\<close> is the null pointer, the call returns false and the
  store of controller states after the call is the store before it: nothing is written.
\<close>

theorem null_fails_closed:
  "current = None \<or> previous = None \<Longrightarrow> TestProcessButtonInput current previous h = (False, h)"
  by (auto simp: TestProcessButtonInput_def split: option.splits)

theorem null_fails_closed_witness:
  "TestProcessButtonInput None (Some 0) (\<lambda>a. \<lparr>buttons_held = SNES_A,
                 buttons_pressed = 0, buttons_released = 0, stick_x = 0, stick_y = 0,
                 connected = True\<rparr>) = (False, (\<lambda>a. \<lparr>buttons_held = SNES_A,
                 buttons_pressed = 0, buttons_released = 0, stick_x = 0, stick_y = 0,
                 connected = True\<rparr>))
  \<and> TestProcessButtonInput (Some 0) None (\<lambda>a. \<lparr>buttons_held = SNES_A,
                 buttons_pressed = 0, buttons_released = 0, stick_x = 0, stick_y = 0,
                 connected = True\<rparr>) = (False, (\<lambda>a. \<lparr>buttons_held = SNES_A,
                 buttons_pressed = 0, buttons_released = 0, stick_x = 0, stick_y = 0,
                 connected = True\<rparr>))
  \<and> TestProcessButtonInput None None (\<lambda>a. \<lparr>buttons_held = SNES_A,
                 buttons_pressed = 0, buttons_released = 0, stick_x = 0, stick_y = 0,
                 connected = True\<rparr>) = (False, (\<lambda>a. \<lparr>buttons_held = SNES_A,
                 buttons_pressed = 0, buttons_released = 0, stick_x = 0, stick_y = 0,
                 connected = True\<rparr>))"
  using null_fails_closed [of None "Some 0"] null_fails_closed [of "Some 0" None]
    null_fails_closed [of None None]
  by simp

section \<open>Analog stick, combos, remapping\<close>

lemma stick_bits:
  "TestStickToDigital x y t =
     (if sint x < - sint t then SNES_LEFT else 0) OR (if sint x > sint t then SNES_RIGHT else 0)
     OR (if sint y < - sint t then SNES_DOWN else 0) OR (if sint y > sint t then SNES_UP else 0)"
  by (simp add: TestStickToDigital_def Let_def ac_simps)

text \<open>
  C7. For all \<open>x\<close>, \<open>y\<close>, \<open>threshold\<close>: the result of \<open>TestStickToDigital\<close> has the Left
  bit iff \<open>x < -threshold\<close>, the Right bit iff \<open>x > threshold\<close>, the Down bit iff
  \<open>y < -threshold\<close>, the Up bit iff \<open>y > threshold\<close>, and no other bit; an axis value
  within \<open>[-threshold, threshold]\<close> gives no bit of that axis; and
  \<open>(-60,0,50)\<close> gives Left, \<open>(60,60,50)\<close> gives \<open>Right|Up\<close>, \<open>(10,-10,50)\<close> gives 0.
\<close>

theorem stick_to_digital:
  "(TestStickToDigital x y t AND SNES_LEFT = SNES_LEFT \<longleftrightarrow> sint x < - sint t)
 \<and> (TestStickToDigital x y t AND SNES_RIGHT = SNES_RIGHT \<longleftrightarrow> sint x > sint t)
 \<and> (TestStickToDigital x y t AND SNES_DOWN = SNES_DOWN \<longleftrightarrow> sint y < - sint t)
 \<and> (TestStickToDigital x y t AND SNES_UP = SNES_UP \<longleftrightarrow> sint y > sint t)
 \<and> TestStickToDigital x y t AND NOT (SNES_LEFT OR SNES_RIGHT OR SNES_DOWN OR SNES_UP) = 0
 \<and> (- sint t \<le> sint x \<and> sint x \<le> sint t \<longrightarrow>
       TestStickToDigital x y t AND (SNES_LEFT OR SNES_RIGHT) = 0)
 \<and> (- sint t \<le> sint y \<and> sint y \<le> sint t \<longrightarrow>
       TestStickToDigital x y t AND (SNES_DOWN OR SNES_UP) = 0)
 \<and> TestStickToDigital (-60) 0 50 = SNES_LEFT
 \<and> TestStickToDigital 60 60 50 = SNES_RIGHT OR SNES_UP
 \<and> TestStickToDigital 10 (-10) 50 = 0"
  unfolding stick_bits
  by (simp add: SNES_defs)

theorem stick_to_digital_witness:
  "- sint (50 :: s16) \<le> sint (10 :: s16) \<and> sint (10 :: s16) \<le> sint (50 :: s16)
   \<and> TestStickToDigital 10 (-60) 50 AND (SNES_LEFT OR SNES_RIGHT) = 0
   \<and> sint (- 60 :: s16) < - sint (50 :: s16)
   \<and> TestStickToDigital 10 (-60) 50 AND SNES_DOWN = SNES_DOWN
   \<and> TestStickToDigital 10 (-60) 50 = SNES_DOWN"
  using stick_to_digital [of 10 "-60" 50]
  by (simp add: TestStickToDigital_def SNES_defs)

text \<open>
  C8. \<open>TestValidateButtonCombo held required\<close> is true iff
  \<open>(held & required) = required\<close>, that is iff every bit of \<open>required\<close> is set in \<open>held\<close>;
  it accepts supersets (more held bits keep it true); for \<open>held = L|R|Start\<close> it is true
  for \<open>L|R\<close>, false for \<open>A|B\<close> and true for \<open>L|R|Start\<close>.
\<close>

theorem validate_combo:
  "(TestValidateButtonCombo held required \<longleftrightarrow> (held AND required) = required)
 \<and> (TestValidateButtonCombo held required \<longleftrightarrow> (\<forall>n. bit required n \<longrightarrow> bit held n))
 \<and> (TestValidateButtonCombo held required \<longrightarrow> TestValidateButtonCombo (held OR extra) required)
 \<and> TestValidateButtonCombo (SNES_L OR SNES_R OR SNES_START) (SNES_L OR SNES_R)
 \<and> \<not> TestValidateButtonCombo (SNES_L OR SNES_R OR SNES_START) (SNES_A OR SNES_B)
 \<and> TestValidateButtonCombo (SNES_L OR SNES_R OR SNES_START) (SNES_L OR SNES_R OR SNES_START)"
proof -
  have a: "bit held n" if "held AND required = required" "bit required n" for n
    using that by (metis bit_and_iff)
  have b: "held AND required = required" if "\<forall>n. bit required n \<longrightarrow> bit held n"
    using that by (intro bit_word_eqI) (auto simp: bit_and_iff)
  have 1: "(held AND required = required) \<longleftrightarrow> (\<forall>n. bit required n \<longrightarrow> bit held n)"
    using a b by blast
  have 2: "(held OR extra) AND required = required" if "held AND required = required"
    using a [OF that] by (intro bit_word_eqI) (auto simp: bit_and_iff bit_or_iff)
  show ?thesis
    unfolding TestValidateButtonCombo_def using 1 2 by (simp add: SNES_defs)
qed

theorem validate_combo_witness:
  "TestValidateButtonCombo (SNES_L OR SNES_R) (SNES_L OR SNES_R)
   \<and> TestValidateButtonCombo ((SNES_L OR SNES_R) OR SNES_START) (SNES_L OR SNES_R)"
proof -
  have a: "TestValidateButtonCombo (SNES_L OR SNES_R) (SNES_L OR SNES_R)"
    by (simp add: TestValidateButtonCombo_def)
  show ?thesis
    using a validate_combo [of "SNES_L OR SNES_R" "SNES_L OR SNES_R" SNES_START]
    by blast
qed

text \<open>
  C9. In the remap table \<open>TestMapGCButtonToSNES\<close>, a defined source code (a case label of
  the switch) maps to one destination code, which is one of the SNES button codes and is
  not 0; a source code that is not defined maps to 0.
\<close>

theorem remap_table:
  "(g \<in> set gc_defined \<longrightarrow>
      TestMapGCButtonToSNES g \<noteq> 0 \<and> TestMapGCButtonToSNES g \<in> set snes_buttons)
 \<and> (g \<notin> set gc_defined \<longrightarrow> TestMapGCButtonToSNES g = 0)"
  by (auto simp: gc_defined_def TestMapGCButtonToSNES_def snes_buttons_def SNES_defs)

theorem remap_table_witness:
  "(0x0001 :: u32) \<in> set gc_defined \<and> TestMapGCButtonToSNES 0x0001 = SNES_A \<and> SNES_A \<noteq> 0
   \<and> (0x9999 :: u32) \<notin> set gc_defined \<and> TestMapGCButtonToSNES 0x9999 = 0"
  using remap_table [of "0x0001"] remap_table [of "0x9999"]
  by (simp add: gc_defined_def TestMapGCButtonToSNES_def SNES_defs)

section \<open>The matrix after ResetControls\<close>

subsection \<open>What one call writes\<close>

lemma foldl_assign:
  "foldl (assign c p) (i, m) vs =
     (i + length vs,
      \<lambda>c' p' j. if c' = c \<and> p' = p \<and> i \<le> j \<and> j < i + length vs then vs ! (j - i)
                else m c' p' j)"
proof (induction vs arbitrary: i m)
  case Nil
  show ?case by (auto simp: fun_eq_iff)
next
  case (Cons v vs)
  show ?case
    unfolding foldl_Cons assign_def [of c p "(i, m)" v] prod.case Cons.IH
    by (auto simp: fun_eq_iff nth_Cons' Suc_diff_le)
qed

lemma padmap_apply:
  "padmap c p vs m c' p' j =
     (if c' = c \<and> p' = p \<and> j < length vs then vs ! j else m c' p' j)"
  by (simp add: padmap_def foldl_assign)


lemma block_apply:
  "block cc wc m b c p j =
     (if selected cc wc b \<and> c = fst b \<and> p = fst (snd b) \<and> j < length (snd (snd b))
      then snd (snd b) ! j else m c p j)"
  by (cases b) (simp add: block_def padmap_apply)

lemma foldl_block_frame:
  "\<forall>b \<in> set bs. \<not> (selected cc wc b \<and> c = fst b \<and> p = fst (snd b) \<and> j < length (snd (snd b)))
   \<Longrightarrow> foldl (block cc wc) m bs c p j = m c p j"
  by (induction bs arbitrary: m) (auto simp: block_apply)

lemma foldl_block_write:
  assumes "distinct (map (\<lambda>b. (fst b, fst (snd b))) bs)"
    and "b \<in> set bs" and "selected cc wc b" and "j < length (snd (snd b))"
  shows "foldl (block cc wc) m bs (fst b) (fst (snd b)) j = snd (snd b) ! j"
  using assms
proof (induction bs arbitrary: m)
  case Nil
  then show ?case by simp
next
  case (Cons a bs)
  show ?case
  proof (cases "a = b")
    case True
    have notin: "(fst b, fst (snd b)) \<notin> (\<lambda>x. (fst x, fst (snd x))) ` set bs"
      using Cons.prems(1) True by simp
    have ne: "(fst x, fst (snd x)) \<noteq> (fst b, fst (snd b))" if "x \<in> set bs" for x
    proof
      assume eq: "(fst x, fst (snd x)) = (fst b, fst (snd b))"
      have "(fst x, fst (snd x)) \<in> (\<lambda>x. (fst x, fst (snd x))) ` set bs"
        using that by (rule imageI)
      with eq notin show False by simp
    qed
    have "foldl (block cc wc) m (a # bs) (fst b) (fst (snd b)) j
               = foldl (block cc wc) (block cc wc m a) bs (fst b) (fst (snd b)) j"
      by (simp only: foldl_Cons)
    also have "\<dots> = block cc wc m a (fst b) (fst (snd b)) j"
    proof (rule foldl_block_frame, rule ballI)
      fix x assume "x \<in> set bs"
      from ne [OF this] show "\<not> (selected cc wc x \<and> fst b = fst x \<and> fst (snd b) = fst (snd x)
                                   \<and> j < length (snd (snd x)))"
        by auto
    qed
    also have "\<dots> = snd (snd b) ! j"
      unfolding block_apply using True Cons.prems(3,4) by simp
    finally show ?thesis .
  next
    case False
    then show ?thesis using Cons by simp
  qed
qed

lemma blocks_keys: "map (\<lambda>b. (fst b, fst (snd b))) (blocks code) = pairs"
  by (simp add: blocks_def pairs_def)

lemma distinct_pairs: "distinct pairs"
  by (simp add: pairs_def CTRL_defs)

lemma blocks_distinct: "distinct (map (\<lambda>b. (fst b, fst (snd b))) (blocks code))"
  by (simp add: blocks_keys distinct_pairs)

lemma blocks_unique:
  "b \<in> set (blocks code) \<Longrightarrow> b' \<in> set (blocks code) \<Longrightarrow> fst b = fst b' \<Longrightarrow> fst (snd b) = fst (snd b')
   \<Longrightarrow> b = b'"
  using blocks_distinct [of code] by (metis (mono_tags, lifting) distinct_map inj_onD)

lemma ResetControls_frame:
  "\<forall>b \<in> set (blocks code). \<not> (selected cc wc b \<and> c = fst b \<and> p = fst (snd b) \<and> j < length (snd (snd b)))
   \<Longrightarrow> ResetControls code cc wc m c p j = m c p j"
  unfolding ResetControls_def by (rule foldl_block_frame)

lemma ResetControls_write:
  "b \<in> set (blocks code) \<Longrightarrow> selected cc wc b \<Longrightarrow> j < length (snd (snd b))
   \<Longrightarrow> ResetControls code cc wc m (fst b) (fst (snd b)) j = snd (snd b) ! j"
  unfolding ResetControls_def by (rule foldl_block_write [OF blocks_distinct])

lemma blocks_length: "b \<in> set (blocks code) \<Longrightarrow> length (snd (snd b)) = slotCount (fst b)"
  by (auto simp: blocks_def slotCount_def CTRL_defs)


lemma ResetControls_other:
  assumes "\<And>b. b \<in> set (blocks code) \<Longrightarrow> c = fst b \<Longrightarrow> p = fst (snd b) \<Longrightarrow>
             selected cc wc b \<Longrightarrow> j < length (snd (snd b)) \<Longrightarrow> False"
  shows "ResetControls code cc wc m c p j = m c p j"
  by (rule ResetControls_frame) (use assms in blast)

lemma ResetControls_apply:
  "ResetControls code cc wc m c p j =
     (case find (\<lambda>b. c = fst b \<and> p = fst (snd b)) (blocks code) of
        None \<Rightarrow> m c p j
      | Some b \<Rightarrow> if selected cc wc b \<and> j < length (snd (snd b)) then snd (snd b) ! j
                  else m c p j)"
proof (cases "find (\<lambda>b. c = fst b \<and> p = fst (snd b)) (blocks code)")
  case None
  have "ResetControls code cc wc m c p j = m c p j"
  proof (rule ResetControls_other)
    fix b assume "b \<in> set (blocks code)" "c = fst b" "p = fst (snd b)"
    with None show False unfolding find_None_iff by blast
  qed
  then show ?thesis
    using None by simp
next
  case (Some b)
  then have b: "b \<in> set (blocks code)" and c: "c = fst b" and p: "p = fst (snd b)"
    by (auto simp: find_Some_iff)
  show ?thesis
  proof (cases "selected cc wc b \<and> j < length (snd (snd b))")
    case True
    then show ?thesis
      using Some ResetControls_write [OF b, of cc wc j m] c p by simp
  next
    case False
    have "ResetControls code cc wc m c p j = m c p j"
    proof (rule ResetControls_other)
      fix b' assume b': "b' \<in> set (blocks code)" and k: "c = fst b'" "p = fst (snd b')"
        and h: "selected cc wc b'" "j < length (snd (snd b'))"
      have "b = b'" using blocks_unique [OF b b'] c p k by simp
      with h False show False by simp
    qed
    then show ?thesis
      using Some False by auto
  qed
qed

lemma row_eqI: "length vs = n \<Longrightarrow> (\<And>j. j < n \<Longrightarrow> m c p j = vs ! j) \<Longrightarrow> row m c p n = vs"
  by (simp add: row_def list_eq_iff_nth_eq)

lemma blocks_zeros:
  "\<forall>b. code b \<noteq> 0 \<Longrightarrow> b \<in> set (blocks code) \<Longrightarrow>
     length (filter (\<lambda>v. v = 0) (snd (snd b)))
       = (if fst b = CTRL_PAD \<and> fst (snd b) = CTRLR_WIIMOTE then 2 else 0)"
  by (auto simp: blocks_def CTRL_defs)

lemma header_code_nonzero: "header_code b \<noteq> 0"
  by (cases b) simp_all


lemma upt_6: "[0..<6] = [0, 1, 2, 3, 4, 5]"
  by (simp add: upt_rec)

subsection \<open>Rebuilding with a console type and no controller type\<close>




subsection \<open>Rebuilding one row\<close>

text \<open>
  C2. \<open>ResetControls(CTRL_PAD, CTRLR_WIIMOTE)\<close> overwrites the (Pad, Wiimote) row with
  its twelve entries, and every other row of the matrix is equal to what it was before
  the call, whatever the matrix held.
\<close>

theorem rebuild_isolation:
  "((c, p) \<noteq> (CTRL_PAD, CTRLR_WIIMOTE) \<longrightarrow>
      ResetControls code CTRL_PAD CTRLR_WIIMOTE m c p = m c p)
   \<and> row (ResetControls code CTRL_PAD CTRLR_WIIMOTE m) CTRL_PAD CTRLR_WIIMOTE 12
       = [code WPAD_BUTTON_B, code WPAD_BUTTON_2, code WPAD_BUTTON_1, code WPAD_BUTTON_A,
          0, 0, code WPAD_BUTTON_PLUS, code WPAD_BUTTON_MINUS,
          code WPAD_BUTTON_RIGHT, code WPAD_BUTTON_LEFT, code WPAD_BUTTON_UP,
          code WPAD_BUTTON_DOWN]"
proof (intro conjI impI)
  assume ne: "(c, p) \<noteq> (CTRL_PAD, CTRLR_WIIMOTE)"
  show "ResetControls code CTRL_PAD CTRLR_WIIMOTE m c p = m c p"
  proof
    fix j
    show "ResetControls code CTRL_PAD CTRLR_WIIMOTE m c p j = m c p j"
      using ne by (intro ResetControls_other) (auto simp: selected_def CTRL_PAD_def)
  qed
next
  let ?b = "(CTRL_PAD, CTRLR_WIIMOTE,
       [code WPAD_BUTTON_B, code WPAD_BUTTON_2, code WPAD_BUTTON_1, code WPAD_BUTTON_A,
          0, 0, code WPAD_BUTTON_PLUS, code WPAD_BUTTON_MINUS,
          code WPAD_BUTTON_RIGHT, code WPAD_BUTTON_LEFT, code WPAD_BUTTON_UP,
          code WPAD_BUTTON_DOWN])"
  have b: "?b \<in> set (blocks code)" by (simp add: blocks_def)
  have "row (ResetControls code CTRL_PAD CTRLR_WIIMOTE m) CTRL_PAD CTRLR_WIIMOTE 12 = snd (snd ?b)"
  proof (rule row_eqI)
    show "length (snd (snd ?b)) = 12" by simp
  next
    fix j :: nat assume "j < 12"
    then show "ResetControls code CTRL_PAD CTRLR_WIIMOTE m CTRL_PAD CTRLR_WIIMOTE j = snd (snd ?b) ! j"
      using ResetControls_write [OF b, of CTRL_PAD CTRLR_WIIMOTE j m] by (simp add: selected_def)
  qed
  then show "row (ResetControls code CTRL_PAD CTRLR_WIIMOTE m) CTRL_PAD CTRLR_WIIMOTE 12
       = [code WPAD_BUTTON_B, code WPAD_BUTTON_2, code WPAD_BUTTON_1, code WPAD_BUTTON_A,
          0, 0, code WPAD_BUTTON_PLUS, code WPAD_BUTTON_MINUS,
          code WPAD_BUTTON_RIGHT, code WPAD_BUTTON_LEFT, code WPAD_BUTTON_UP,
          code WPAD_BUTTON_DOWN]"
    by simp
qed

theorem rebuild_isolation_witness:
  "(CTRL_SCOPE, CTRLR_WIIMOTE) \<noteq> (CTRL_PAD, CTRLR_WIIMOTE)
   \<and> ResetControls header_code CTRL_PAD CTRLR_WIIMOTE (\<lambda>c p i. 7) CTRL_SCOPE CTRLR_WIIMOTE
       = (\<lambda>i. 7)
   \<and> row (ResetControls header_code CTRL_PAD CTRLR_WIIMOTE (\<lambda>c p i. 7)) CTRL_PAD CTRLR_WIIMOTE 12
       = [0x0004, 0x0001, 0x0002, 0x0008, 0, 0, 0x1000, 0x0010, 0x0200, 0x0100, 0x0800, 0x0400]"
  using rebuild_isolation [where c = CTRL_SCOPE and p = CTRLR_WIIMOTE
      and code = header_code and m = "\<lambda>c p i. 7"]
  by (simp add: CTRL_defs)

text \<open>
  C5. \<open>ResetControls\<close> is idempotent: for any two arguments and any starting matrix, a
  second call with the same arguments leaves the whole matrix, and so the row rebuilt, as
  the first call left it.
\<close>

theorem rebuild_idempotent:
  "ResetControls code consoleCtrl wiiCtrl (ResetControls code consoleCtrl wiiCtrl m)
     = ResetControls code consoleCtrl wiiCtrl m"
proof (intro ext)
  fix c p j
  show "ResetControls code consoleCtrl wiiCtrl (ResetControls code consoleCtrl wiiCtrl m) c p j
          = ResetControls code consoleCtrl wiiCtrl m c p j"
    by (simp add: ResetControls_apply [of code consoleCtrl wiiCtrl _ c p j] split: option.splits)
qed

theorem rebuild_idempotent_witness:
  "row (ResetControls header_code CTRL_JUST CTRLR_WUPC
          (ResetControls header_code CTRL_JUST CTRLR_WUPC zero_btnmap)) CTRL_JUST CTRLR_WUPC 3
     = row (ResetControls header_code CTRL_JUST CTRLR_WUPC zero_btnmap) CTRL_JUST CTRLR_WUPC 3"
  using rebuild_idempotent [of header_code CTRL_JUST CTRLR_WUPC zero_btnmap]
  by simp

subsection \<open>The full rebuild\<close>

text \<open>
  C4. After a full rebuild (\<open>consoleCtrl = -1\<close>), each row that has a block
  in \<open>ResetControls\<close> holds the sequence of its block in its first \<open>slotCount\<close> slots,
  where that sequence has exactly \<open>slotCount\<close> entries (12 for Pad, 6 for Superscope, 2
  for Mouse, 3 for Justifier), and every slot beyond is as it was. Provided every button
  macro is non-zero, the (Pad, Wiimote) sequence has exactly two entries 0 and every other
  sequence has none. The rows with a block are the 21 pairs of \<open>pairs\<close>: Pad with all six
  controller types, and Superscope, Mouse and Justifier with all but the Nunchuk. Any
  other row is as it was before the call.
\<close>

theorem full_rebuild_rows:
  assumes "\<forall>b. code b \<noteq> 0"
  shows "(\<forall>(c, p, vs) \<in> set (blocks code).
            length vs = slotCount c
          \<and> row (ResetControls code (-1) wiiCtrl m) c p (slotCount c) = vs
          \<and> (\<forall>j \<ge> slotCount c. ResetControls code (-1) wiiCtrl m c p j = m c p j)
          \<and> length (filter (\<lambda>v. v = 0) vs)
               = (if c = CTRL_PAD \<and> p = CTRLR_WIIMOTE then 2 else 0))
       \<and> map (\<lambda>(c, p, vs). (c, p)) (blocks code) = pairs
       \<and> (\<forall>c p. (c, p) \<notin> set pairs \<longrightarrow> ResetControls code (-1) wiiCtrl m c p = m c p)"
proof (intro conjI ballI allI impI)
  fix b assume b: "b \<in> set (blocks code)"
  obtain c p vs where bb: "b = (c, p, vs)" by (cases b) auto
  have len: "length vs = slotCount c"
    using blocks_length [OF b] bb by simp
  have wr: "row (ResetControls code (-1) wiiCtrl m) c p (slotCount c) = vs"
  proof (rule row_eqI [OF len])
    fix j assume "j < slotCount c"
    then show "ResetControls code (-1) wiiCtrl m c p j = vs ! j"
      using ResetControls_write [OF b, of "-1" wiiCtrl j m] bb len by (simp add: selected_def)
  qed
  have fr: "ResetControls code (-1) wiiCtrl m c p j = m c p j" if "j \<ge> slotCount c" for j
  proof (rule ResetControls_other)
    fix b' assume b': "b' \<in> set (blocks code)" and k: "c = fst b'" "p = fst (snd b')"
      and h: "j < length (snd (snd b'))"
    have "b' = (c, p, vs)" using blocks_unique [OF b b'] bb k by simp
    with h len that show False by simp
  qed
  have z: "length (filter (\<lambda>v. v = 0) vs) = (if c = CTRL_PAD \<and> p = CTRLR_WIIMOTE then 2 else 0)"
    using blocks_zeros [OF assms b] bb by simp
  show "case b of (c, p, vs) \<Rightarrow>
            length vs = slotCount c
          \<and> row (ResetControls code (-1) wiiCtrl m) c p (slotCount c) = vs
          \<and> (\<forall>j \<ge> slotCount c. ResetControls code (-1) wiiCtrl m c p j = m c p j)
          \<and> length (filter (\<lambda>v. v = 0) vs)
               = (if c = CTRL_PAD \<and> p = CTRLR_WIIMOTE then 2 else 0)"
    using len wr fr z bb by simp
next
  show "map (\<lambda>(c, p, vs). (c, p)) (blocks code) = pairs"
    by (simp add: blocks_def pairs_def)
next
  fix c p assume np: "(c, p) \<notin> set pairs"
  show "ResetControls code (-1) wiiCtrl m c p = m c p"
  proof
    fix j
    have "(fst b, fst (snd b)) \<in> set pairs" if "b \<in> set (blocks code)" for b
      using that unfolding blocks_keys [of code, symmetric] by (simp only: set_map) (rule imageI)
    with np show "ResetControls code (-1) wiiCtrl m c p j = m c p j"
      by (intro ResetControls_other) blast
  qed
qed

theorem full_rebuild_rows_witness:
  "(\<forall>b. header_code b \<noteq> 0)
   \<and> slotCount CTRL_PAD = 12
   \<and> row (ResetControls header_code (-1) (-1) zero_btnmap) CTRL_PAD CTRLR_WIIMOTE 12
       = [0x0004, 0x0001, 0x0002, 0x0008, 0, 0, 0x1000, 0x0010, 0x0200, 0x0100, 0x0800, 0x0400]
   \<and> ResetControls header_code (-1) (-1) zero_btnmap CTRL_PAD CTRLR_WIIMOTE 12 = 0
   \<and> ResetControls header_code (-1) (-1) zero_btnmap CTRL_SCOPE CTRLR_NUNCHUK = zero_btnmap CTRL_SCOPE CTRLR_NUNCHUK"
proof -
  have nz: "\<forall>b. header_code b \<noteq> 0"
    by (simp add: header_code_nonzero)
  have b: "(CTRL_PAD, CTRLR_WIIMOTE,
       [header_code WPAD_BUTTON_B, header_code WPAD_BUTTON_2, header_code WPAD_BUTTON_1,
        header_code WPAD_BUTTON_A, 0x0000, 0x0000, header_code WPAD_BUTTON_PLUS,
        header_code WPAD_BUTTON_MINUS, header_code WPAD_BUTTON_RIGHT,
        header_code WPAD_BUTTON_LEFT, header_code WPAD_BUTTON_UP,
        header_code WPAD_BUTTON_DOWN]) \<in> set (blocks header_code)"
    by (simp add: blocks_def)
  have np: "(CTRL_SCOPE, CTRLR_NUNCHUK) \<notin> set pairs"
    by (simp add: pairs_def CTRL_defs)
  note t = full_rebuild_rows [OF nz, where wiiCtrl = "-1" and m = zero_btnmap]
  have sc: "slotCount CTRL_PAD = 12" by (simp add: slotCount_def)
  show ?thesis
    using nz bspec [OF conjunct1 [OF t] b] conjunct2 [OF conjunct2 [OF t]] np sc
    by (simp add: zero_btnmap_def)
qed

text \<open>
  The (Superscope, Nunchuk) row is one of the rows without a block: after a full rebuild
  from the zero-initialised matrix all six of its slots are still 0.
\<close>

theorem full_rebuild_rows_counterexample:
  "row (ResetControls header_code (-1) (-1) zero_btnmap) CTRL_SCOPE CTRLR_NUNCHUK
       (slotCount CTRL_SCOPE) = [0, 0, 0, 0, 0, 0]"
  by (simp add: row_def upt_6 slotCount_def ResetControls_apply blocks_def selected_def CTRL_defs
      zero_btnmap_def)

end
